theory Spec2Isabelle
  imports Main
begin

section \<open>Python primitives used by the bot\<close>

text \<open>
  Strings are byte strings: the emoji of the source's literals appear as their UTF-8
  bytes. The bot only splits on ASCII separators and compares whole strings, which
  agree on code points and on UTF-8 bytes.
\<close>

datatype py_error = KeyError | ValueError | IndexError | AttributeError | BadRequest

definition digit_char :: "nat \<Rightarrow> char" where
  "digit_char d = ''0123456789'' ! d"

function digits_of :: "nat \<Rightarrow> string" where
  "digits_of n =
     (if n < 10 then [digit_char n] else digits_of (n div 10) @ [digit_char (n mod 10)])"
  by pat_completeness auto
termination
  by (relation "measure (\<lambda>n. n)") auto

declare digits_of.simps [simp del]

text \<open>\<^verbatim>\<open>str(i)\<close> for a Python int.\<close>

definition str_int :: "int \<Rightarrow> string" where
  "str_int i = (if i < 0 then CHR ''-'' # digits_of (nat (- i)) else digits_of (nat i))"

text \<open>
  \<^verbatim>\<open>s.split(sep, maxsplit)\<close> for a non-empty separator: \<open>acc\<close> holds, reversed, the
  characters of the piece being read, \<open>n\<close> the splits still allowed.
\<close>

function py_splitn :: "string \<Rightarrow> nat \<Rightarrow> string \<Rightarrow> string \<Rightarrow> string list" where
  "py_splitn sep n acc s =
     (if n = 0 then [rev acc @ s]
      else case s of
        [] \<Rightarrow> [rev acc]
      | c # cs \<Rightarrow>
          if sep \<noteq> [] \<and> take (length sep) s = sep
          then rev acc # py_splitn sep (n - 1) [] (drop (length sep) s)
          else py_splitn sep n (c # acc) cs)"
  by pat_completeness auto
termination
  by (relation "measure (\<lambda>(sep, n, acc, s). length s)") auto

declare py_splitn.simps [simp del]

text \<open>\<^verbatim>\<open>s.split(sep)\<close>: no bound on the number of splits (there are at most \<open>length s\<close>).\<close>

definition py_split :: "string \<Rightarrow> string \<Rightarrow> string list" where
  "py_split sep s = py_splitn sep (Suc (length s)) [] s"

text \<open>
  \<^verbatim>\<open>int(s)\<close> in base 10: surrounding whitespace is stripped, one sign is allowed,
  and single underscores may separate digits. Whitespace and digits are the ASCII ones.
  (The interpreter's limit of 4300 digits is above the length of any callback datum or
  message text the platform delivers.)
\<close>

definition is_space :: "char \<Rightarrow> bool" where
  "is_space c = (c \<in> set [CHR '' '', CHR 0x09, CHR 0x0A, CHR 0x0B, CHR 0x0C, CHR 0x0D,
                            CHR 0x1C, CHR 0x1D, CHR 0x1E, CHR 0x1F])"

definition py_strip :: "string \<Rightarrow> string" where
  "py_strip s = rev (dropWhile is_space (rev (dropWhile is_space s)))"

definition digit_val :: "char \<Rightarrow> nat option" where
  "digit_val c = map_of (zip ''0123456789'' [0, 1, 2, 3, 4, 5, 6, 7, 8, 9]) c"

fun parse_digits :: "nat \<Rightarrow> string \<Rightarrow> nat option" where
  "parse_digits acc [] = Some acc"
| "parse_digits acc (c # cs) =
     (if c = CHR ''_''
      then (case cs of
              [] \<Rightarrow> None
            | d # _ \<Rightarrow> if digit_val d = None then None else parse_digits acc cs)
      else (case digit_val c of
              None \<Rightarrow> None
            | Some d \<Rightarrow> parse_digits (10 * acc + d) cs))"

definition py_int :: "string \<Rightarrow> py_error + int" where
  "py_int s =
     (let t = py_strip s;
          neg = (case t of [] \<Rightarrow> False | c # _ \<Rightarrow> c = CHR ''-'');
          body = (case t of [] \<Rightarrow> []
                  | c # r \<Rightarrow> if c = CHR ''-'' \<or> c = CHR ''+'' then r else t)
      in case body of
           [] \<Rightarrow> Inl ValueError
         | c # _ \<Rightarrow>
             if digit_val c = None then Inl ValueError
             else (case parse_digits 0 body of
                     None \<Rightarrow> Inl ValueError
                   | Some n \<Rightarrow> Inr (if neg then - int n else int n)))"

text \<open>\<^verbatim>\<open>xs[i]\<close>: an index below zero counts back from the end, and an index
  outside the list raises.\<close>

definition py_index :: "'a list \<Rightarrow> int \<Rightarrow> py_error + 'a" where
  "py_index xs i =
     (if 0 \<le> i \<and> i < int (length xs) then Inr (xs ! nat i)
      else if i < 0 \<and> - i \<le> int (length xs) then Inr (xs ! nat (int (length xs) + i))
      else Inl IndexError)"

section \<open>Configuration\<close>

definition FEEDBACK_CATEGORIES :: "string list" where
  "FEEDBACK_CATEGORIES =
     [ [CHR 0xF0, CHR 0x9F, CHR 0x90, CHR 0x9B] @ '' Bug Report'',
       [CHR 0xF0, CHR 0x9F, CHR 0x92, CHR 0xA1] @ '' Feature Request'',
       [CHR 0xF0, CHR 0x9F, CHR 0xA4, CHR 0x94] @ '' General Query'',
       [CHR 0xE2, CHR 0xAD, CHR 0x90] @ '' Other'' ]"

definition FEEDBACK_PER_PAGE :: int where
  "FEEDBACK_PER_PAGE = 5"

section \<open>Data model\<close>

text \<open>A row of the \<^verbatim>\<open>feedback\<close> table (class \<^verbatim>\<open>Feedback\<close>).\<close>

record Feedback =
  fb_id :: int
  user_id :: int
  username :: "string option"
  category :: string
  message :: string
  rating :: int
  status :: string
  timestamp :: nat
  photo_file_id :: "string option"

text \<open>The conversation states; \<open>END\<close> is \<^verbatim>\<open>ConversationHandler.END\<close>.\<close>

datatype conv_state =
  SELECT_CATEGORY | GET_FEEDBACK_CONTENT | GET_RATING | CONFIRM_SUBMISSION
| ADMIN_REPLY | ADMIN_BROADCAST | END

text \<open>\<^verbatim>\<open>context.user_data\<close>: the acting user's dictionary, one optional entry per key.\<close>

record user_data =
  feedback_category :: "string option"
  feedback_message :: "string option"
  feedback_rating :: "int option"
  feedback_photo_id :: "string option"
  admin_reply_to_fb_id :: "int option"

definition clear :: "user_data \<Rightarrow> user_data" where
  "clear ud = \<lparr> feedback_category = None, feedback_message = None, feedback_rating = None,
                feedback_photo_id = None, admin_reply_to_fb_id = None \<rparr>"

text \<open>
  The parts of a Telegram \<^verbatim>\<open>Update\<close> the handlers read. \<open>has_message\<close> says whether
  \<^verbatim>\<open>update.message\<close> is present: it is absent on a callback query and on an edited
  message. The text, photo sizes and caption are those of the effective message (the
  message, or the edited message when \<^verbatim>\<open>update.message\<close> is absent).
\<close>

record update =
  has_message :: bool
  effective_user_id :: int
  effective_username :: "string option"
  effective_full_name :: string
  effective_chat_id :: int
  callback_data :: "string option"
  message_text :: "string option"
  message_photo :: "string list"
  message_caption :: "string option"
  query_message_photo :: bool

section \<open>The messaging gateway\<close>

text \<open>
  Inline buttons, named after their labels; \<open>button_data\<close> is the
  \<^verbatim>\<open>callback_data\<close> each one carries.
\<close>

datatype button =
  StartFeedback
| CategoryButton string
| RatingButton int
| Submit
| CancelButton
| ReplyButton int
| MarkResolved int
| DeleteButton int
| BackToList
| BackToStart
| ViewManage int
| Prev int
| Next int


type_synonym markup = "button list list"

text \<open>
  The texts the bot sends, one constructor per message template of the source, with the
  values the template interpolates.
\<close>

datatype notice =
  AccessDenied
| WelcomeFeedback
| CategoryPrompt string
| UnsupportedType
| RatingPrompt
| Summary string int bool string
| SubmissionCancelled
| DatabaseError
| ThankYou
| OperationCancelled
| NewFeedback Feedback
| AdminMenu
| AlreadyRegistered
| NowAdmin
| NoFeedbackYet
| EndOfList
| FeedbackList int "Feedback list"
| InvalidFormat
| NotFound int
| ImageAttached int
| ImageError int
| Details Feedback
| MarkedResolved int
| Deleted int
| ReplyPrompt int
| OriginalNotFound
| AdminReply "string option"
| ReplySent int
| ReplyFailed int
| BroadcastMode
| SendingBroadcast
| Payload "string option"
| BroadcastComplete nat nat
| Welcome
| NoStatsYet
| Statistics "Feedback list"

datatype chat = Chat int | ChatName string

text \<open>
  A call to the gateway. \<open>ReplyText\<close>, the edits and \<open>DeleteMessage\<close> address the
  message of the update being handled.
\<close>

datatype effect =
  Answer
| ReplyText notice "markup option"
| EditMessageText notice "markup option"
| EditMessageCaption notice
| DeleteMessage
| SendMessage chat notice "markup option"
| SendPhoto chat string notice "markup option"

section \<open>State and environment\<close>

text \<open>
  \<open>admin_config\<close> is what \<^verbatim>\<open>load_admin_config\<close> reads from the configuration file: the
  empty dictionary when the file is missing or unreadable. \<open>db\<close> holds the rows of the
  feedback table in insertion order, \<open>outbox\<close> the gateway calls made so far, in order.
\<close>

record world =
  admin_config :: "(string \<times> string) list"
  db :: "Feedback list"
  outbox :: "effect list"

datatype delete_result = DeleteOk | DeleteNotFound | DeleteOtherError

text \<open>
  What the environment decides. A failure of the store or of the gateway is modelled
  where the source has a branch for it (a \<^verbatim>\<open>try\<close> around the call); elsewhere the call
  is taken to succeed.
\<close>

record env =
  db_ok :: bool
  deliverable :: "int \<Rightarrow> bool"
  photo_ok :: bool
  delete_outcome :: delete_result
  fs_ok :: bool
  utcnow :: nat

text \<open>
  What a handler leaves behind: it returns (with the next conversation state, if it
  names one) or raises, and in both cases the world and the user's data are as the
  handler left them.
\<close>

datatype outcome =
  Returned world user_data "conv_state option"
| Raised py_error world user_data

fun world_of :: "outcome \<Rightarrow> world" where
  "world_of (Returned w ud s) = w"
| "world_of (Raised e w ud) = w"

fun data_of :: "outcome \<Rightarrow> user_data" where
  "data_of (Returned w ud s) = ud"
| "data_of (Raised e w ud) = ud"

definition emit :: "effect \<Rightarrow> world \<Rightarrow> world" where
  "emit e w = w\<lparr>outbox := outbox w @ [e]\<rparr>"

text \<open>Truthiness of an optional string: \<^verbatim>\<open>None\<close> and \<^verbatim>\<open>''\<close> are false.\<close>

definition truthy :: "string option \<Rightarrow> bool" where
  "truthy v = (case v of None \<Rightarrow> False | Some s \<Rightarrow> s \<noteq> [])"

text \<open>\<^verbatim>\<open>a or b\<close> on strings.\<close>

definition str_or :: "string option \<Rightarrow> string \<Rightarrow> string" where
  "str_or a b = (if truthy a then the a else b)"

section \<open>Utility functions and decorators\<close>

definition load_admin_config :: "world \<Rightarrow> (string \<times> string) list" where
  "load_admin_config w = admin_config w"

definition save_admin_config :: "env \<Rightarrow> (string \<times> string) list \<Rightarrow> world \<Rightarrow> world" where
  "save_admin_config ev config w = (if fs_ok ev then w\<lparr>admin_config := config\<rparr> else w)"

definition admin_only ::
  "(update \<Rightarrow> world \<Rightarrow> user_data \<Rightarrow> outcome) \<Rightarrow> update \<Rightarrow> world \<Rightarrow> user_data \<Rightarrow> outcome" where
  "admin_only func upd w ud =
     (let config = load_admin_config w;
          uid = effective_user_id upd
      in if config = [] \<or> Some (str_int uid) \<noteq> map_of config ''admin_id''
         then Returned (emit (ReplyText AccessDenied None) w) ud None
         else func upd w ud)"

section \<open>Keyboard layouts\<close>

definition get_category_keyboard :: markup where
  "get_category_keyboard = map (\<lambda>cat. [CategoryButton cat]) FEEDBACK_CATEGORIES"

definition get_rating_keyboard :: markup where
  "get_rating_keyboard = [map RatingButton [1, 2, 3, 4, 5]]"

definition get_confirmation_keyboard :: markup where
  "get_confirmation_keyboard = [[Submit, CancelButton]]"

definition get_admin_feedback_actions_keyboard :: "int \<Rightarrow> string \<Rightarrow> markup" where
  "get_admin_feedback_actions_keyboard feedback_id st =
     (let buttons = [ReplyButton feedback_id, DeleteButton feedback_id];
          buttons' = (if st \<noteq> ''resolved''
                      then [ReplyButton feedback_id, MarkResolved feedback_id,
                            DeleteButton feedback_id]
                      else buttons)
      in [buttons', [BackToList]])"

section \<open>User conversation handlers\<close>

definition start_admin :: "update \<Rightarrow> world \<Rightarrow> world" where
  "start_admin upd w = emit (ReplyText AdminMenu None) w"

definition start_command :: "update \<Rightarrow> world \<Rightarrow> user_data \<Rightarrow> outcome" where
  "start_command upd w ud =
     (let config = load_admin_config w in
      if config \<noteq> [] \<and> Some (str_int (effective_user_id upd)) = map_of config ''admin_id''
      then Returned (start_admin upd w) ud (Some END)
      else Returned (emit (ReplyText Welcome (Some [[StartFeedback]])) w) ud (Some END))"

definition start_user_flow :: "update \<Rightarrow> world \<Rightarrow> user_data \<Rightarrow> outcome" where
  "start_user_flow upd w ud =
     (case callback_data upd of
        None \<Rightarrow> Raised AttributeError w ud
      | Some d \<Rightarrow>
          Returned (emit (EditMessageText WelcomeFeedback (Some get_category_keyboard))
                      (emit Answer w))
            ud (Some SELECT_CATEGORY))"

definition select_category_callback :: "update \<Rightarrow> world \<Rightarrow> user_data \<Rightarrow> outcome" where
  "select_category_callback upd w ud =
     (case callback_data upd of
        None \<Rightarrow> Raised AttributeError w ud
      | Some d \<Rightarrow>
          let w1 = emit Answer w in
          (case py_index (py_split ''category_'' d) 1 of
             Inl e \<Rightarrow> Raised e w1 ud
           | Inr cat \<Rightarrow>
               Returned (emit (EditMessageText (CategoryPrompt cat) None) w1)
                 (ud\<lparr>feedback_category := Some cat\<rparr>)
                 (Some GET_FEEDBACK_CONTENT)))"

definition get_feedback_content_handler :: "update \<Rightarrow> world \<Rightarrow> user_data \<Rightarrow> outcome" where
  "get_feedback_content_handler upd w ud =
     (if message_photo upd \<noteq> []
      then Returned (emit (ReplyText RatingPrompt (Some get_rating_keyboard)) w)
             (ud\<lparr>feedback_photo_id := Some (last (message_photo upd)),
                 feedback_message :=
                   Some (str_or (message_caption upd) ''(No description provided with photo)'')\<rparr>)
             (Some GET_RATING)
      else if truthy (message_text upd)
      then Returned (emit (ReplyText RatingPrompt (Some get_rating_keyboard)) w)
             (ud\<lparr>feedback_message := message_text upd\<rparr>)
             (Some GET_RATING)
      else Returned (emit (ReplyText UnsupportedType None) w) ud (Some GET_FEEDBACK_CONTENT))"

definition get_rating_callback :: "update \<Rightarrow> world \<Rightarrow> user_data \<Rightarrow> outcome" where
  "get_rating_callback upd w ud =
     (case callback_data upd of
        None \<Rightarrow> Raised AttributeError w ud
      | Some d \<Rightarrow>
          let w1 = emit Answer w in
          (case py_index (py_split ''rating_'' d) 1 of
             Inl e \<Rightarrow> Raised e w1 ud
           | Inr digits \<Rightarrow>
               (case py_int digits of
                  Inl e \<Rightarrow> Raised e w1 ud
                | Inr r \<Rightarrow>
                    let ud1 = ud\<lparr>feedback_rating := Some r\<rparr> in
                    (case feedback_category ud1 of
                       None \<Rightarrow> Raised KeyError w1 ud1
                     | Some cat \<Rightarrow>
                         let summary =
                               Summary cat r (truthy (feedback_photo_id ud1))
                                 (case feedback_message ud1 of
                                    None \<Rightarrow> ''No description provided.''
                                  | Some m \<Rightarrow> m);
                             w2 = emit DeleteMessage w1;
                             w3 = (if truthy (feedback_photo_id ud1)
                                   then emit (SendPhoto (Chat (effective_chat_id upd))
                                                (the (feedback_photo_id ud1)) summary
                                                (Some get_confirmation_keyboard)) w2
                                   else emit (SendMessage (Chat (effective_chat_id upd)) summary
                                                (Some get_confirmation_keyboard)) w2)
                         in Returned w3 ud1 (Some CONFIRM_SUBMISSION)))))"

text \<open>
  The store assigns the key of a new row: one more than the largest key in the table
  (SQLite's rule for an integer primary key), 1 in an empty table.
\<close>

definition new_id :: "Feedback list \<Rightarrow> int" where
  "new_id rows = fold max (map fb_id rows) 0 + 1"

text \<open>\<^verbatim>\<open>db.query(Feedback).filter(Feedback.id == feedback_id).first()\<close>\<close>

definition get_feedback :: "world \<Rightarrow> int \<Rightarrow> Feedback option" where
  "get_feedback w feedback_id = find (\<lambda>fb. fb_id fb = feedback_id) (db w)"

definition notify_admin_new_feedback :: "world \<Rightarrow> int \<Rightarrow> world" where
  "notify_admin_new_feedback w feedback_id =
     (let config = load_admin_config w in
      if \<not> truthy (map_of config ''admin_chat_id'') then w
      else (case get_feedback w feedback_id of
              None \<Rightarrow> w
            | Some fb \<Rightarrow>
                let keyboard = [[ViewManage (fb_id fb)]];
                    admin_chat = ChatName (the (map_of config ''admin_chat_id''))
                in if truthy (photo_file_id fb)
                   then emit (SendPhoto admin_chat (the (photo_file_id fb)) (NewFeedback fb)
                                (Some keyboard)) w
                   else emit (SendMessage admin_chat (NewFeedback fb) (Some keyboard)) w))"

definition confirm_submission_callback ::
  "env \<Rightarrow> update \<Rightarrow> world \<Rightarrow> user_data \<Rightarrow> outcome" where
  "confirm_submission_callback ev upd w ud =
     (case callback_data upd of
        None \<Rightarrow> Raised AttributeError w ud
      | Some d \<Rightarrow>
          let w1 = emit Answer w in
          if d = ''confirm_no''
          then Returned (emit (SendMessage (Chat (effective_chat_id upd)) SubmissionCancelled None)
                           (emit DeleteMessage w1))
                 (clear ud) (Some END)
          else (case feedback_category ud of
                  None \<Rightarrow> Raised KeyError w1 ud
                | Some cat \<Rightarrow>
                    (case feedback_rating ud of
                       None \<Rightarrow> Raised KeyError w1 ud
                     | Some r \<Rightarrow>
                         if \<not> db_ok ev
                         then Returned (emit (SendMessage (Chat (effective_chat_id upd))
                                                DatabaseError None)
                                          (emit DeleteMessage w1))
                                ud (Some END)
                         else
                           let new_feedback =
                                 \<lparr> fb_id = new_id (db w1),
                                   user_id = effective_user_id upd,
                                   username = Some (str_or (effective_username upd)
                                                      (effective_full_name upd)),
                                   category = cat,
                                   message = (case feedback_message ud of
                                                None \<Rightarrow> ''No description provided.''
                                              | Some m \<Rightarrow> m),
                                   rating = r,
                                   status = ''new'',
                                   timestamp = utcnow ev,
                                   photo_file_id = feedback_photo_id ud \<rparr>;
                               w2 = w1\<lparr>db := db w1 @ [new_feedback]\<rparr>;
                               w3 = (if query_message_photo upd
                                     then emit (EditMessageCaption ThankYou) w2
                                     else emit (EditMessageText ThankYou None) w2);
                               w4 = notify_admin_new_feedback w3 (fb_id new_feedback)
                           in Returned w4 (clear ud) (Some END))))"

text \<open>
  \<^verbatim>\<open>cancel_handler\<close> answers through \<^verbatim>\<open>update.message\<close> before it clears the session:
  without a message the attribute access raises and the session is left as it was.
\<close>

definition cancel_handler :: "update \<Rightarrow> world \<Rightarrow> user_data \<Rightarrow> outcome" where
  "cancel_handler upd w ud =
     (if \<not> has_message upd then Raised AttributeError w ud
      else Returned (emit (ReplyText OperationCancelled None) w) (clear ud) (Some END))"

section \<open>Admin handlers\<close>

definition help_admin_command :: "update \<Rightarrow> world \<Rightarrow> user_data \<Rightarrow> outcome" where
  "help_admin_command = admin_only (\<lambda>upd w ud. Returned (start_admin upd w) ud None)"

text \<open>The body of \<^verbatim>\<open>register_admin_command\<close>, before the decorator is applied.\<close>

definition register_admin_command_func ::
  "env \<Rightarrow> update \<Rightarrow> world \<Rightarrow> user_data \<Rightarrow> outcome" where
  "register_admin_command_func ev upd w ud =
     (let config = load_admin_config w in
      if truthy (map_of config ''admin_id'')
         \<and> Some (str_int (effective_user_id upd)) \<noteq> map_of config ''admin_id''
      then Returned (emit (ReplyText AlreadyRegistered None) w) ud None
      else
        let new_config =
              [(''admin_id'', str_int (effective_user_id upd)),
               (''admin_chat_id'', str_int (effective_chat_id upd)),
               (''admin_username'',
                str_or (effective_username upd) (effective_full_name upd))]
        in Returned (emit (ReplyText NowAdmin None) (save_admin_config ev new_config w)) ud None)"

text \<open>\<^verbatim>\<open>@admin_only async def register_admin_command\<close>: the handler that is registered.\<close>

definition register_admin_command :: "env \<Rightarrow> update \<Rightarrow> world \<Rightarrow> user_data \<Rightarrow> outcome" where
  "register_admin_command ev = admin_only (register_admin_command_func ev)"

text \<open>
  The two queries of \<^verbatim>\<open>display_feedback_page\<close>: the row count, and the page taken from
  the rows in descending order of time (SQLite reads a negative offset as 0).
\<close>

definition total_feedback :: "world \<Rightarrow> int" where
  "total_feedback w = int (length (db w))"

definition feedbacks_of_page :: "world \<Rightarrow> int \<Rightarrow> Feedback list" where
  "feedbacks_of_page w page =
     take (nat FEEDBACK_PER_PAGE)
       (drop (nat (page * FEEDBACK_PER_PAGE)) (rev (sort_key timestamp (db w))))"

text \<open>The text and the keyboard \<^verbatim>\<open>display_feedback_page\<close> builds.\<close>

definition feedback_page_view :: "world \<Rightarrow> int \<Rightarrow> notice \<times> markup option" where
  "feedback_page_view w page =
     (let feedbacks = feedbacks_of_page w page in
      if feedbacks = [] \<and> page = 0 then (NoFeedbackYet, None)
      else if feedbacks = [] then (EndOfList, Some [[BackToStart]])
      else
        let nav_buttons =
              (if page > 0 then [Prev (page - 1)] else [])
              @ (if (page + 1) * FEEDBACK_PER_PAGE < total_feedback w
                 then [Next (page + 1)] else [])
        in (FeedbackList page feedbacks, Some [nav_buttons]))"

definition display_feedback_page :: "update \<Rightarrow> world \<Rightarrow> int \<Rightarrow> world" where
  "display_feedback_page upd w page =
     (let (text, markup) = feedback_page_view w page in
      if callback_data upd \<noteq> None then emit (EditMessageText text markup) w
      else emit (ReplyText text markup) w)"

definition list_feedback_command :: "update \<Rightarrow> world \<Rightarrow> user_data \<Rightarrow> outcome" where
  "list_feedback_command =
     admin_only (\<lambda>upd w ud. Returned (display_feedback_page upd w 0) ud None)"

definition admin_list_callback :: "update \<Rightarrow> world \<Rightarrow> user_data \<Rightarrow> outcome" where
  "admin_list_callback upd w ud =
     (case callback_data upd of
        None \<Rightarrow> Raised AttributeError w ud
      | Some d \<Rightarrow>
          let w1 = emit Answer w in
          (case py_index (py_split ''_'' d) (- 1) of
             Inl e \<Rightarrow> Raised e w1 ud
           | Inr digits \<Rightarrow>
               (case py_int digits of
                  Inl e \<Rightarrow> Raised e w1 ud
                | Inr page \<Rightarrow> Returned (display_feedback_page upd w1 page) ud None)))"

text \<open>
  \<^verbatim>\<open>display_single_feedback\<close> returns the error it raises, if any, with the world as it
  left it.
\<close>

definition display_single_feedback ::
  "env \<Rightarrow> update \<Rightarrow> world \<Rightarrow> int \<Rightarrow> py_error option \<times> world" where
  "display_single_feedback ev upd w feedback_id =
     (let chat = Chat (effective_chat_id upd) in
      case get_feedback w feedback_id of
        None \<Rightarrow>
          (None,
           if callback_data upd \<noteq> None
           then emit (EditMessageText (NotFound feedback_id) (Some [[BackToList]])) w
           else emit (SendMessage chat (NotFound feedback_id) (Some [[BackToList]])) w)
      | Some fb \<Rightarrow>
          let w1 = (if callback_data upd \<noteq> None then emit DeleteMessage w else w) in
          if callback_data upd \<noteq> None \<and> delete_outcome ev = DeleteOtherError
          then (Some BadRequest, w1)
          else
            let w2 = (if truthy (photo_file_id fb)
                      then (let w' = emit (SendPhoto chat (the (photo_file_id fb))
                                             (ImageAttached (fb_id fb)) None) w1
                            in if photo_ok ev then w'
                               else emit (SendMessage chat (ImageError (fb_id fb)) None) w')
                      else w1);
                keyboard = get_admin_feedback_actions_keyboard feedback_id (status fb)
            in (None, emit (SendMessage chat (Details fb) (Some keyboard)) w2))"

definition admin_view_command :: "env \<Rightarrow> update \<Rightarrow> world \<Rightarrow> user_data \<Rightarrow> outcome" where
  "admin_view_command ev upd w ud =
     (case message_text upd of
        None \<Rightarrow> Raised AttributeError w ud
      | Some t \<Rightarrow>
          (case py_index (py_split ''_'' t) 1 of
             Inl e \<Rightarrow> Returned (emit (ReplyText InvalidFormat None) w) ud None
           | Inr digits \<Rightarrow>
               (case py_int digits of
                  Inl e \<Rightarrow> Returned (emit (ReplyText InvalidFormat None) w) ud None
                | Inr feedback_id \<Rightarrow>
                    (case display_single_feedback ev upd w feedback_id of
                       (None, w') \<Rightarrow> Returned w' ud None
                     | (Some e, w') \<Rightarrow> Raised e w' ud))))"

definition admin_view_callback :: "env \<Rightarrow> update \<Rightarrow> world \<Rightarrow> user_data \<Rightarrow> outcome" where
  "admin_view_callback ev upd w ud =
     (case callback_data upd of
        None \<Rightarrow> Raised AttributeError w ud
      | Some d \<Rightarrow>
          let w1 = emit Answer w in
          (case py_index (py_split ''_'' d) (- 1) of
             Inl e \<Rightarrow> Raised e w1 ud
           | Inr digits \<Rightarrow>
               (case py_int digits of
                  Inl e \<Rightarrow> Raised e w1 ud
                | Inr feedback_id \<Rightarrow>
                    (case display_single_feedback ev upd w1 feedback_id of
                       (None, w') \<Rightarrow> Returned w' ud None
                     | (Some e, w') \<Rightarrow> Raised e w' ud))))"

text \<open>\<^verbatim>\<open>UPDATE feedback SET status = st WHERE id = feedback_id\<close>\<close>

definition set_status :: "int \<Rightarrow> string \<Rightarrow> Feedback list \<Rightarrow> Feedback list" where
  "set_status feedback_id st rows =
     map (\<lambda>fb. if fb_id fb = feedback_id then fb\<lparr>status := st\<rparr> else fb) rows"

text \<open>\<^verbatim>\<open>DELETE FROM feedback WHERE id = feedback_id\<close>\<close>

definition delete_feedback :: "int \<Rightarrow> Feedback list \<Rightarrow> Feedback list" where
  "delete_feedback feedback_id rows = filter (\<lambda>fb. fb_id fb \<noteq> feedback_id) rows"

definition admin_feedback_action_callback ::
  "env \<Rightarrow> update \<Rightarrow> world \<Rightarrow> user_data \<Rightarrow> outcome" where
  "admin_feedback_action_callback ev upd w ud =
     (case callback_data upd of
        None \<Rightarrow> Raised AttributeError w ud
      | Some d \<Rightarrow>
          let w1 = emit Answer w in
          (case tl (py_splitn ''_'' 2 [] d) of
             [action, feedback_id_str] \<Rightarrow>
               (case py_int feedback_id_str of
                  Inl e \<Rightarrow> Raised e w1 ud
                | Inr feedback_id \<Rightarrow>
                    if action = ''resolve''
                    then
                      let w2 = w1\<lparr>db := set_status feedback_id ''resolved'' (db w1)\<rparr>;
                          w3 = emit (ReplyText (MarkedResolved feedback_id) None) w2
                      in (case display_single_feedback ev upd w3 feedback_id of
                            (None, w') \<Rightarrow> Returned w' ud None
                          | (Some e, w') \<Rightarrow> Raised e w' ud)
                    else if action = ''delete''
                    then
                      let w2 = w1\<lparr>db := delete_feedback feedback_id (db w1)\<rparr>
                      in Returned (emit (EditMessageText (Deleted feedback_id) None) w2) ud None
                    else if action = ''reply''
                    then Returned (emit (ReplyText (ReplyPrompt feedback_id) None) w1)
                           (ud\<lparr>admin_reply_to_fb_id := Some feedback_id\<rparr>)
                           (Some ADMIN_REPLY)
                    else Returned w1 ud None)
           | _ \<Rightarrow> Raised ValueError w1 ud))"

definition admin_reply_handler :: "env \<Rightarrow> update \<Rightarrow> world \<Rightarrow> user_data \<Rightarrow> outcome" where
  "admin_reply_handler ev upd w ud =
     (case admin_reply_to_fb_id ud of
        None \<Rightarrow> Returned w ud (Some END)
      | Some feedback_id \<Rightarrow>
          if feedback_id = 0 then Returned w ud (Some END)
          else
            (case get_feedback w feedback_id of
               None \<Rightarrow> Returned (emit (ReplyText OriginalNotFound None) w) ud (Some END)
             | Some fb \<Rightarrow>
                 let user_id_to_reply = user_id fb;
                     w1 = w\<lparr>db := set_status (fb_id fb) ''replied'' (db w)\<rparr>;
                     w2 = emit (SendMessage (Chat user_id_to_reply)
                                  (AdminReply (message_text upd)) None) w1;
                     w3 = (if deliverable ev user_id_to_reply
                           then emit (ReplyText (ReplySent feedback_id) None) w2
                           else emit (ReplyText (ReplyFailed feedback_id) None) w2)
                 in Returned w3 (clear ud) (Some END)))"

text \<open>
  \<^verbatim>\<open>stats_command\<close> only reads the table; the text it formats (total, average rating,
  counts by category and by status) is written as \<open>Statistics\<close> of the rows.
\<close>

definition stats_command :: "update \<Rightarrow> world \<Rightarrow> user_data \<Rightarrow> outcome" where
  "stats_command =
     admin_only (\<lambda>upd w ud.
       if db w = [] then Returned (emit (ReplyText NoStatsYet None) w) ud None
       else Returned (emit (ReplyText (Statistics (db w)) None) w) ud None)"

definition broadcast_command :: "update \<Rightarrow> world \<Rightarrow> user_data \<Rightarrow> outcome" where
  "broadcast_command =
     admin_only (\<lambda>upd w ud.
       Returned (emit (ReplyText BroadcastMode None) w) ud (Some ADMIN_BROADCAST))"

text \<open>
  The loop of \<^verbatim>\<open>broadcast_handler\<close> over \<open>user_ids\<close>: the world, \<open>sent_count\<close> and
  \<open>failed_count\<close> are threaded through. Every pass makes the gateway call; whether it is
  delivered or raises decides which counter grows.
\<close>

fun broadcast_loop ::
  "env \<Rightarrow> string option \<Rightarrow> int list \<Rightarrow> world \<times> nat \<times> nat \<Rightarrow> world \<times> nat \<times> nat" where
  "broadcast_loop ev msg [] acc = acc"
| "broadcast_loop ev msg (uid # rest) (w, sent_count, failed_count) =
     (let w' = emit (SendMessage (Chat uid) (Payload msg) None) w in
      if deliverable ev uid
      then broadcast_loop ev msg rest (w', sent_count + 1, failed_count)
      else broadcast_loop ev msg rest (w', sent_count, failed_count + 1))"

definition broadcast_handler :: "env \<Rightarrow> update \<Rightarrow> world \<Rightarrow> user_data \<Rightarrow> outcome" where
  "broadcast_handler ev upd w ud =
     (let broadcast_message = message_text upd;
          w1 = emit (ReplyText SendingBroadcast None) w;
          user_ids = remdups (map user_id (db w1));
          (w2, sent_count, failed_count) =
             broadcast_loop ev broadcast_message user_ids (w1, 0, 0)
      in Returned (emit (ReplyText (BroadcastComplete sent_count failed_count) None) w2)
           ud (Some END))"

section \<open>Notions used in the statements\<close>

text \<open>Whether a keyboard offers a button of a given kind.\<close>

fun is_prev :: "button \<Rightarrow> bool" where
  "is_prev (Prev target) = True"
| "is_prev b = False"

fun is_next :: "button \<Rightarrow> bool" where
  "is_next (Next target) = True"
| "is_next b = False"

definition has_button :: "(button \<Rightarrow> bool) \<Rightarrow> markup option \<Rightarrow> bool" where
  "has_button P m = (case m of None \<Rightarrow> False | Some rows \<Rightarrow> list_ex P (concat rows))"

text \<open>
  A run of the feedback conversation as \<^verbatim>\<open>main\<close> wires it: the handler registered for a
  state runs on the next update when the handler before it returned that state;
  otherwise the run stops with what that handler left.
\<close>

fun continue_in :: "conv_state \<Rightarrow> (world \<Rightarrow> user_data \<Rightarrow> outcome) \<Rightarrow> outcome \<Rightarrow> outcome" where
  "continue_in s handler (Returned w ud (Some s')) =
     (if s' = s then handler w ud else Returned w ud (Some s'))"
| "continue_in s handler (Returned w ud None) = Returned w ud None"
| "continue_in s handler (Raised e w ud) = Raised e w ud"

definition feedback_dialogue ::
  "env \<Rightarrow> update \<Rightarrow> update \<Rightarrow> update \<Rightarrow> update \<Rightarrow> world \<Rightarrow> user_data \<Rightarrow> outcome" where
  "feedback_dialogue ev u1 u2 u3 u4 w ud =
     continue_in CONFIRM_SUBMISSION (confirm_submission_callback ev u4)
       (continue_in GET_RATING (get_rating_callback u3)
          (continue_in GET_FEEDBACK_CONTENT (get_feedback_content_handler u2)
             (select_category_callback u1 w ud)))"



text \<open>
  The handlers \<^verbatim>\<open>main\<close> registers, and what each does with an update: every operation of
  the bot is one of them.
\<close>

datatype handler =
  StartCommand | StartUserFlow | SelectCategoryCallback | GetFeedbackContentHandler
| GetRatingCallback | ConfirmSubmissionCallback | CancelHandler
| RegisterAdminCommand | ListFeedbackCommand | StatsCommand | HelpAdminCommand
| AdminViewCommand | AdminListCallback | AdminViewCallback | AdminFeedbackActionCallback
| AdminReplyHandler | BroadcastCommand | BroadcastHandler

fun run_handler :: "handler \<Rightarrow> env \<Rightarrow> update \<Rightarrow> world \<Rightarrow> user_data \<Rightarrow> outcome" where
  "run_handler StartCommand ev = start_command"
| "run_handler StartUserFlow ev = start_user_flow"
| "run_handler SelectCategoryCallback ev = select_category_callback"
| "run_handler GetFeedbackContentHandler ev = get_feedback_content_handler"
| "run_handler GetRatingCallback ev = get_rating_callback"
| "run_handler ConfirmSubmissionCallback ev = confirm_submission_callback ev"
| "run_handler CancelHandler ev = cancel_handler"
| "run_handler RegisterAdminCommand ev = register_admin_command ev"
| "run_handler ListFeedbackCommand ev = list_feedback_command"
| "run_handler StatsCommand ev = stats_command"
| "run_handler HelpAdminCommand ev = help_admin_command"
| "run_handler AdminViewCommand ev = admin_view_command ev"
| "run_handler AdminListCallback ev = admin_list_callback"
| "run_handler AdminViewCallback ev = admin_view_callback ev"
| "run_handler AdminFeedbackActionCallback ev = admin_feedback_action_callback ev"
| "run_handler AdminReplyHandler ev = admin_reply_handler ev"
| "run_handler BroadcastCommand ev = broadcast_command"
| "run_handler BroadcastHandler ev = broadcast_handler ev"

text \<open>
  How \<^verbatim>\<open>feedback_conv\<close> picks the handler for a participant in a state (its \<^verbatim>\<open>states\<close>
  table in \<^verbatim>\<open>main\<close>). A callback-query handler accepts a callback query whose data
  begin with the prefix of its pattern. \<^verbatim>\<open>filters.TEXT | filters.PHOTO\<close> accepts a message
  update with a non-empty text, commands included, or with a photo. The fallbacks are
  consulted only when no handler of the state accepts the update.
\<close>

definition accepts_pattern :: "string \<Rightarrow> update \<Rightarrow> bool" where
  "accepts_pattern prefix upd =
     (case callback_data upd of None \<Rightarrow> False | Some d \<Rightarrow> take (length prefix) d = prefix)"

definition accepts_text_or_photo :: "update \<Rightarrow> bool" where
  "accepts_text_or_photo upd =
     (callback_data upd = None \<and> (truthy (message_text upd) \<or> message_photo upd \<noteq> []))"

fun feedback_conv_state_handler :: "conv_state \<Rightarrow> update \<Rightarrow> handler option" where
  "feedback_conv_state_handler SELECT_CATEGORY upd =
     (if accepts_pattern ''category_'' upd then Some SelectCategoryCallback else None)"
| "feedback_conv_state_handler GET_FEEDBACK_CONTENT upd =
     (if accepts_text_or_photo upd then Some GetFeedbackContentHandler else None)"
| "feedback_conv_state_handler GET_RATING upd =
     (if accepts_pattern ''rating_'' upd then Some GetRatingCallback else None)"
| "feedback_conv_state_handler CONFIRM_SUBMISSION upd =
     (if accepts_pattern ''confirm_'' upd then Some ConfirmSubmissionCallback else None)"
| "feedback_conv_state_handler s upd = None"

section \<open>Sample values\<close>

text \<open>Concrete inputs at which the theorems below are instantiated.\<close>

definition empty_data :: user_data where
  "empty_data = \<lparr> feedback_category = None, feedback_message = None, feedback_rating = None,
                   feedback_photo_id = None, admin_reply_to_fb_id = None \<rparr>"

definition sample_draft :: user_data where
  "sample_draft = \<lparr> feedback_category = Some ([CHR 0xE2, CHR 0xAD, CHR 0x90] @ '' Other''),
                     feedback_message = Some ''crashes on save'', feedback_rating = Some 4,
                     feedback_photo_id = None, admin_reply_to_fb_id = None \<rparr>"

definition sample_env :: env where
  "sample_env = \<lparr> db_ok = True, deliverable = (\<lambda>u. u \<noteq> 7), photo_ok = True,
                   delete_outcome = DeleteOk, fs_ok = True, utcnow = 100 \<rparr>"

definition sample_row :: Feedback where
  "sample_row = \<lparr> fb_id = 1, user_id = 7, username = Some ''carol'',
                   category = [CHR 0xE2, CHR 0xAD, CHR 0x90] @ '' Other'',
                   message = ''crashes on save'', rating = 4, status = ''new'',
                   timestamp = 50, photo_file_id = None \<rparr>"

definition sample_world :: world where
  "sample_world = \<lparr> admin_config = [(''admin_id'', ''1''), (''admin_chat_id'', ''1''),
                                      (''admin_username'', ''root'')],
                     db = [sample_row], outbox = [] \<rparr>"

definition sample_update :: update where
  "sample_update = \<lparr> has_message = True, effective_user_id = 42, effective_username = Some ''mallory'',
                      effective_full_name = ''Mallory M'', effective_chat_id = 42,
                      callback_data = None, message_text = None, message_photo = [],
                      message_caption = None, query_message_photo = False \<rparr>"

text \<open>
  A dialogue with an image whose confirmation meets a failing store, and the text-only
  dialogue of the same user that follows it.
\<close>

definition failed_photo_run :: outcome where
  "failed_photo_run =
     feedback_dialogue (sample_env\<lparr>db_ok := False\<rparr>)
       (sample_update\<lparr>callback_data := Some (''category_'' @ FEEDBACK_CATEGORIES ! 0)\<rparr>)
       (sample_update\<lparr>message_photo := [''small1'', ''photo1''],
                      message_caption := Some ''see picture''\<rparr>)
       (sample_update\<lparr>callback_data := Some (''rating_'' @ str_int 2)\<rparr>)
       (sample_update\<lparr>callback_data := Some ''confirm_yes''\<rparr>)
       sample_world empty_data"

definition text_run_after_failure :: outcome where
  "text_run_after_failure =
     feedback_dialogue sample_env
       (sample_update\<lparr>callback_data := Some (''category_'' @ FEEDBACK_CATEGORIES ! 0)\<rparr>)
       (sample_update\<lparr>message_text := Some ''crashes on save''\<rparr>)
       (sample_update\<lparr>callback_data := Some (''rating_'' @ str_int 4)\<rparr>)
       (sample_update\<lparr>callback_data := Some ''confirm_yes''\<rparr>)
       (world_of failed_photo_run) (data_of failed_photo_run)"



section \<open>Facts about the gateway and the store\<close>

lemma db_emit [simp]: "db (emit e w) = db w"
  by (simp add: emit_def)

lemma admin_config_emit [simp]: "admin_config (emit e w) = admin_config w"
  by (simp add: emit_def)

lemma outbox_emit [simp]: "outbox (emit e w) = outbox w @ [e]"
  by (simp add: emit_def)

lemma clear_is_empty: "clear ud = empty_data"
  by (simp add: clear_def empty_data_def)

lemma db_notify_admin [simp]: "db (notify_admin_new_feedback w i) = db w"
  by (simp add: notify_admin_new_feedback_def Let_def split: option.splits)

lemma admin_config_notify_admin [simp]:
  "admin_config (notify_admin_new_feedback w i) = admin_config w"
  by (simp add: notify_admin_new_feedback_def Let_def split: option.splits)

lemma db_display_single [simp]: "db (snd (display_single_feedback ev upd w i)) = db w"
  by (simp add: display_single_feedback_def Let_def split: option.splits)

lemma db_display_page [simp]: "db (display_feedback_page upd w p) = db w"
  by (simp add: display_feedback_page_def Let_def split: prod.splits)



section \<open>Access control\<close>

lemma admin_only_no_admin:
  "admin_config w = [] \<Longrightarrow>
   admin_only func upd w ud = Returned (emit (ReplyText AccessDenied None) w) ud None"
  by (simp add: admin_only_def load_admin_config_def)

lemma admin_only_mismatch:
  "map_of (admin_config w) ''admin_id'' \<noteq> Some (str_int (effective_user_id upd)) \<Longrightarrow>
   admin_only func upd w ud = Returned (emit (ReplyText AccessDenied None) w) ud None"
  by (auto simp add: admin_only_def load_admin_config_def Let_def)

text \<open>
  The registration handler is the decorated function: whoever is not already the
  registered admin is turned away by the decorator, with or without an admin on file,
  and the configuration stays as it is.
\<close>

lemma register_without_admin:
  "admin_config w = [] \<Longrightarrow>
   register_admin_command ev upd w ud = Returned (emit (ReplyText AccessDenied None) w) ud None"
  by (simp add: register_admin_command_def admin_only_no_admin)

lemma register_other_identity:
  "map_of (admin_config w) ''admin_id'' \<noteq> Some (str_int (effective_user_id upd)) \<Longrightarrow>
   register_admin_command ev upd w ud = Returned (emit (ReplyText AccessDenied None) w) ud None"
  by (simp add: register_admin_command_def admin_only_mismatch)

text \<open>
  The moderation callbacks and the view command never look at who is acting: their
  result is the same for every user.
\<close>

lemma display_single_ignores_user:
  "display_single_feedback ev (upd\<lparr>effective_user_id := u\<rparr>) w i
     = display_single_feedback ev upd w i"
  by (simp add: display_single_feedback_def Let_def
      cong: if_cong option.case_cong sum.case_cong list.case_cong prod.case_cong)

lemma display_page_ignores_user:
  "display_feedback_page (upd\<lparr>effective_user_id := u\<rparr>) w p = display_feedback_page upd w p"
  by (simp add: display_feedback_page_def Let_def
      cong: if_cong option.case_cong sum.case_cong list.case_cong prod.case_cong)

lemma action_callback_ignores_user:
  "admin_feedback_action_callback ev (upd\<lparr>effective_user_id := u\<rparr>) w ud
     = admin_feedback_action_callback ev upd w ud"
  by (simp add: admin_feedback_action_callback_def display_single_ignores_user Let_def
      cong: if_cong option.case_cong sum.case_cong list.case_cong prod.case_cong)

lemma list_callback_ignores_user:
  "admin_list_callback (upd\<lparr>effective_user_id := u\<rparr>) w ud = admin_list_callback upd w ud"
  by (simp add: admin_list_callback_def display_page_ignores_user Let_def
      cong: if_cong option.case_cong sum.case_cong list.case_cong prod.case_cong)

lemma view_command_ignores_user:
  "admin_view_command ev (upd\<lparr>effective_user_id := u\<rparr>) w ud = admin_view_command ev upd w ud"
  by (simp add: admin_view_command_def display_single_ignores_user Let_def
      cong: if_cong option.case_cong sum.case_cong list.case_cong prod.case_cong)

lemma view_callback_ignores_user:
  "admin_view_callback ev (upd\<lparr>effective_user_id := u\<rparr>) w ud = admin_view_callback ev upd w ud"
  by (simp add: admin_view_callback_def display_single_ignores_user Let_def
      cong: if_cong option.case_cong sum.case_cong list.case_cong prod.case_cong)

lemma reply_handler_ignores_user:
  "admin_reply_handler ev (upd\<lparr>effective_user_id := u\<rparr>) w ud = admin_reply_handler ev upd w ud"
  by (simp add: admin_reply_handler_def Let_def
      cong: if_cong option.case_cong sum.case_cong list.case_cong prod.case_cong)

text \<open>
  C1. The claim: every admin moderation entry point (listing, pagination, single-item
  view, resolve, delete, reply) answers a user who is not the registered admin with an
  access-denied notice and changes nothing. Of these handlers only
  \<open>list_feedback_command\<close> goes through \<open>admin_only\<close>. Here user 42, who is not the
  registered admin (identity 1), presses a button carrying \<^verbatim>\<open>admin_delete_1\<close>:
  \<open>admin_feedback_action_callback\<close> deletes row 1. The same user is denied by the gated
  \<open>list_feedback_command\<close>.
\<close>

theorem non_admin_delete_not_gated:
  "admin_feedback_action_callback sample_env
     (sample_update\<lparr>callback_data := Some ''admin_delete_1''\<rparr>) sample_world empty_data
   = Returned (sample_world\<lparr>db := [], outbox := [Answer, EditMessageText (Deleted 1) None]\<rparr>)
       empty_data None
   \<and> list_feedback_command (sample_update\<lparr>message_text := Some ''/listfb''\<rparr>)
       sample_world empty_data
     = Returned (sample_world\<lparr>outbox := [ReplyText AccessDenied None]\<rparr>) empty_data None"
proof
  show "admin_feedback_action_callback sample_env
     (sample_update\<lparr>callback_data := Some ''admin_delete_1''\<rparr>) sample_world empty_data
   = Returned (sample_world\<lparr>db := [], outbox := [Answer, EditMessageText (Deleted 1) None]\<rparr>)
       empty_data None"
    by code_simp
  show "list_feedback_command (sample_update\<lparr>message_text := Some ''/listfb''\<rparr>)
       sample_world empty_data
     = Returned (sample_world\<lparr>outbox := [ReplyText AccessDenied None]\<rparr>) empty_data None"
    by (simp add: list_feedback_command_def admin_only_def load_admin_config_def
        sample_world_def sample_update_def str_int_def digits_of.simps digit_char_def emit_def)
qed

text \<open>
  C2. The claim: with no admin registered, the user who invokes the registration becomes
  the admin. The registered handler is the decorated one, and with an empty
  configuration \<open>admin_only\<close> denies every caller before the body runs: the first
  claimant gets the access-denied notice and nothing is stored.
\<close>

theorem register_first_claimant_denied:
  "register_admin_command sample_env (sample_update\<lparr>message_text := Some ''/registeradmin''\<rparr>)
     (sample_world\<lparr>admin_config := []\<rparr>) empty_data
   = Returned (sample_world\<lparr>admin_config := [], outbox := [ReplyText AccessDenied None]\<rparr>)
       empty_data None"
  by (simp add: register_admin_command_def admin_only_no_admin emit_def sample_world_def)

section \<open>Broadcast\<close>

lemma broadcast_loop_eq:
  "broadcast_loop ev msg ids (w, s, f) =
     (w\<lparr>outbox := outbox w @ map (\<lambda>u. SendMessage (Chat u) (Payload msg) None) ids\<rparr>,
      s + length (filter (deliverable ev) ids),
      f + length (filter (\<lambda>u. \<not> deliverable ev u) ids))"
  by (induction ids arbitrary: w s f) (simp_all add: emit_def Let_def)



section \<open>The admin's reply\<close>



section \<open>Confirmation and cancellation\<close>

lemma cancel_with_message:
  "has_message upd \<Longrightarrow>
   cancel_handler upd w ud
     = Returned (emit (ReplyText OperationCancelled None) w) empty_data (Some END)"
  by (simp add: cancel_handler_def clear_is_empty)

lemma cancel_without_message:
  "\<not> has_message upd \<Longrightarrow> cancel_handler upd w ud = Raised AttributeError w ud"
  by (simp add: cancel_handler_def)

lemma confirm_no_clears:
  "callback_data upd = Some ''confirm_no'' \<Longrightarrow>
   \<exists>w'. confirm_submission_callback ev upd w ud = Returned w' empty_data (Some END)
     \<and> db w' = db w"
  by (simp add: confirm_submission_callback_def Let_def clear_is_empty)

text \<open>
  C9. The claim: cancelling at any point before confirmation leaves the table unchanged
  and clears the session. The table is indeed never touched, and \<^verbatim>\<open>confirm_no\<close> and a
  \<^verbatim>\<open>/cancel\<close> message that reaches \<open>cancel_handler\<close> clear the session. But a participant
  in the content state who sends \<^verbatim>\<open>/cancel\<close> is served by the state's own handler, which
  accepts any text: the command is stored as the feedback message, the session keeps
  its draft and the dialogue moves on to the rating. And \<open>cancel_handler\<close> itself, on
  an update without a message (an edited \<^verbatim>\<open>/cancel\<close>), raises before it clears.
\<close>

theorem cancel_in_content_state_keeps_session:
  "feedback_conv_state_handler GET_FEEDBACK_CONTENT
       (sample_update\<lparr>message_text := Some ''/cancel''\<rparr>)
     = Some GetFeedbackContentHandler
   \<and> run_handler GetFeedbackContentHandler sample_env
       (sample_update\<lparr>message_text := Some ''/cancel''\<rparr>) sample_world
       (sample_draft\<lparr>feedback_message := None, feedback_rating := None\<rparr>)
     = Returned (emit (ReplyText RatingPrompt (Some get_rating_keyboard)) sample_world)
         (sample_draft\<lparr>feedback_message := Some ''/cancel'', feedback_rating := None\<rparr>)
         (Some GET_RATING)
   \<and> cancel_handler (sample_update\<lparr>has_message := False\<rparr>) sample_world sample_draft
     = Raised AttributeError sample_world sample_draft"
  by (simp add: accepts_text_or_photo_def truthy_def get_feedback_content_handler_def
      cancel_handler_def sample_update_def sample_draft_def)



section \<open>Pagination\<close>

lemma page_empty_iff:
  assumes "0 \<le> p"
  shows "feedbacks_of_page w p = [] \<longleftrightarrow> total_feedback w \<le> p * 5"
proof -
  have "feedbacks_of_page w p = [] \<longleftrightarrow> length (db w) \<le> nat (p * 5)"
    by (simp add: feedbacks_of_page_def FEEDBACK_PER_PAGE_def)
  also have "\<dots> \<longleftrightarrow> int (length (db w)) \<le> p * 5"
    using assms by linarith
  finally show ?thesis
    by (simp add: total_feedback_def)
qed

text \<open>
  C6, as stated: the previous control is absent if and only if p = 0. On a page past
  the end the list renders the end-of-list notice with only a back-to-start button:
  with one stored row, page 1 has no previous control although p is not 0.
\<close>

theorem prev_absent_past_end:
  "feedback_page_view sample_world 1 = (EndOfList, Some [[BackToStart]])
   \<and> \<not> (\<not> has_button is_prev (snd (feedback_page_view sample_world 1)) \<longleftrightarrow> (1::int) = 0)"
  by (simp add: feedback_page_view_def feedbacks_of_page_def FEEDBACK_PER_PAGE_def
      sample_world_def has_button_def)

text \<open>
  C6, amended: for every page p \<ge> 0 the next control is absent if and only if
  (p+1)*5 \<ge> totalCount, and the previous control is absent if and only if p = 0 or the
  page lies past the end (p*5 \<ge> totalCount).
\<close>

theorem page_navigation:
  assumes "0 \<le> p"
  shows "(\<not> has_button is_prev (snd (feedback_page_view w p))
            \<longleftrightarrow> (p = 0 \<or> total_feedback w \<le> p * 5))
     \<and> (\<not> has_button is_next (snd (feedback_page_view w p))
            \<longleftrightarrow> total_feedback w \<le> (p + 1) * 5)"
proof (cases "feedbacks_of_page w p = []")
  case True
  with assms have "total_feedback w \<le> p * 5"
    by (simp add: page_empty_iff)
  with True show ?thesis
    by (simp add: feedback_page_view_def has_button_def)
next
  case False
  with assms have "\<not> total_feedback w \<le> p * 5"
    by (simp add: page_empty_iff)
  with False assms show ?thesis
    by (simp add: feedback_page_view_def has_button_def Let_def FEEDBACK_PER_PAGE_def)
qed

theorem page_navigation_witness:
  "(\<not> has_button is_prev (snd (feedback_page_view sample_world 0))
      \<longleftrightarrow> ((0::int) = 0 \<or> total_feedback sample_world \<le> 0 * 5))
   \<and> (\<not> has_button is_next (snd (feedback_page_view sample_world 0))
      \<longleftrightarrow> total_feedback sample_world \<le> (0 + 1) * 5)
   \<and> \<not> has_button is_prev (snd (feedback_page_view sample_world 0))
   \<and> \<not> has_button is_next (snd (feedback_page_view sample_world 0))"
  using page_navigation [of 0 sample_world]
  by (simp add: total_feedback_def sample_world_def)

section \<open>The feedback dialogue\<close>








text \<open>
  C4. The claim: the row a valid run persists carries the image reference collected in
  that run. The session is not reset when a dialogue starts, the text branch of the
  content step leaves the image entry alone, and the exit taken when the store fails
  returns without clearing the session (the other exits clear it). So after a
  dialogue with an image that ended in a store failure, the same user's text-only
  dialogue persists a row carrying the earlier image.
\<close>

theorem stale_image_persisted:
  "feedback_photo_id (data_of failed_photo_run) = Some ''photo1''
   \<and> db (world_of failed_photo_run) = [sample_row]
   \<and> db (world_of text_run_after_failure)
       = [sample_row,
          \<lparr> fb_id = 2, user_id = 42, username = Some ''mallory'',
            category = FEEDBACK_CATEGORIES ! 0, message = ''crashes on save'',
            rating = 4, status = ''new'', timestamp = 100,
            photo_file_id = Some ''photo1'' \<rparr>]"
  by code_simp

section \<open>Categories and ratings\<close>






section \<open>What each handler does to the table\<close>

lemma db_save_admin_config [simp]: "db (save_admin_config ev c w) = db w"
  by (simp add: save_admin_config_def)

lemma db_admin_only:
  assumes "\<And>upd w ud. db (world_of (func upd w ud)) = db w"
  shows "db (world_of (admin_only func upd w ud)) = db w"
  using assms by (simp add: admin_only_def Let_def)

lemma display_single_db:
  "display_single_feedback ev upd w i = (e, w') \<Longrightarrow> db w' = db w"
  using db_display_single [of ev upd w i] by simp

lemma db_start_command: "db (world_of (start_command upd w ud)) = db w"
  by (simp add: start_command_def start_admin_def Let_def)

lemma db_start_user_flow: "db (world_of (start_user_flow upd w ud)) = db w"
  by (simp add: start_user_flow_def split: option.splits)

lemma db_select_category: "db (world_of (select_category_callback upd w ud)) = db w"
  by (simp add: select_category_callback_def Let_def split: option.splits sum.splits)

lemma db_get_content: "db (world_of (get_feedback_content_handler upd w ud)) = db w"
  by (simp add: get_feedback_content_handler_def)

lemma db_get_rating: "db (world_of (get_rating_callback upd w ud)) = db w"
  by (simp add: get_rating_callback_def Let_def split: option.splits sum.splits)

lemma db_cancel: "db (world_of (cancel_handler upd w ud)) = db w"
  by (simp add: cancel_handler_def)

lemma db_register: "db (world_of (register_admin_command ev upd w ud)) = db w"
  unfolding register_admin_command_def
  by (rule db_admin_only) (simp add: register_admin_command_func_def Let_def)

lemma db_list_command: "db (world_of (list_feedback_command upd w ud)) = db w"
  unfolding list_feedback_command_def by (rule db_admin_only) simp

lemma db_stats: "db (world_of (stats_command upd w ud)) = db w"
  unfolding stats_command_def by (rule db_admin_only) simp

lemma db_help: "db (world_of (help_admin_command upd w ud)) = db w"
  unfolding help_admin_command_def by (rule db_admin_only) (simp add: start_admin_def)

lemma db_broadcast_command: "db (world_of (broadcast_command upd w ud)) = db w"
  unfolding broadcast_command_def by (rule db_admin_only) simp

lemma db_admin_list: "db (world_of (admin_list_callback upd w ud)) = db w"
  by (simp add: admin_list_callback_def Let_def split: option.splits sum.splits)

lemma db_view_command: "db (world_of (admin_view_command ev upd w ud)) = db w"
  by (auto simp add: admin_view_command_def Let_def dest: display_single_db
      split: option.splits sum.splits prod.splits)

lemma db_view_callback: "db (world_of (admin_view_callback ev upd w ud)) = db w"
  by (auto simp add: admin_view_callback_def Let_def dest: display_single_db
      split: option.splits sum.splits prod.splits)

lemma db_broadcast_handler: "db (world_of (broadcast_handler ev upd w ud)) = db w"
  by (simp add: broadcast_handler_def Let_def broadcast_loop_eq)

lemma db_confirm:
  "db (world_of (confirm_submission_callback ev upd w ud)) = db w
   \<or> (\<exists>fb. db (world_of (confirm_submission_callback ev upd w ud)) = db w @ [fb]
         \<and> status fb = ''new'' \<and> fb_id fb = new_id (db w))"
  by (simp add: confirm_submission_callback_def Let_def split: option.splits)

lemma db_reply:
  "db (world_of (admin_reply_handler ev upd w ud)) = db w
   \<or> (\<exists>i. db (world_of (admin_reply_handler ev upd w ud)) = set_status i ''replied'' (db w))"
  by (auto simp add: admin_reply_handler_def Let_def split: option.splits)

lemma db_action:
  "db (world_of (admin_feedback_action_callback ev upd w ud)) = db w
   \<or> (\<exists>i. db (world_of (admin_feedback_action_callback ev upd w ud))
            = set_status i ''resolved'' (db w))
   \<or> (\<exists>i. db (world_of (admin_feedback_action_callback ev upd w ud))
            = delete_feedback i (db w))"
  by (auto simp add: admin_feedback_action_callback_def Let_def dest!: display_single_db
      split: option.splits sum.splits prod.splits list.splits)

lemma in_set_status:
  "fb' \<in> set (set_status i st rows) \<Longrightarrow> \<exists>fb\<in>set rows. fb' = fb \<or> fb' = fb\<lparr>status := st\<rparr>"
  by (auto simp add: set_status_def split: if_splits)

lemma in_delete_feedback: "fb' \<in> set (delete_feedback i rows) \<Longrightarrow> fb' \<in> set rows"
  by (simp add: delete_feedback_def)

lemma fold_max_ge: "(a::int) \<le> fold max xs a"
  by (induction xs arbitrary: a) (auto intro: order_trans [OF max.cobounded2])

lemma fold_max_mem: "(x::int) \<in> set xs \<Longrightarrow> x \<le> fold max xs a"
proof (induction xs arbitrary: a)
  case Nil
  then show ?case by simp
next
  case (Cons y ys)
  show ?case
  proof (cases "x = y")
    case True
    have "y \<le> max y a" by simp
    also have "\<dots> \<le> fold max ys (max y a)" by (rule fold_max_ge)
    finally show ?thesis using True by simp
  next
    case False
    with Cons.prems have "x \<in> set ys" by simp
    then show ?thesis using Cons.IH by simp
  qed
qed

lemma new_id_fresh: "fb \<in> set rows \<Longrightarrow> fb_id fb < new_id rows"
proof -
  assume "fb \<in> set rows"
  then have "fb_id fb \<in> set (map fb_id rows)" by simp
  then have "fb_id fb \<le> fold max (map fb_id rows) 0" by (rule fold_max_mem)
  then show ?thesis by (simp add: new_id_def)
qed

section \<open>Status transitions\<close>

text \<open>
  C3, as stated: no operation changes the status of a resolved item back to \<open>new\<close> or
  \<open>replied\<close>. The detail view of a resolved item still offers the reply button (only
  the resolve button is hidden), and the reply handler sets the status to \<open>replied\<close>
  whatever it was: a resolved item becomes replied.
\<close>

theorem reply_reopens_resolved:
  "get_admin_feedback_actions_keyboard 1 ''resolved''
     = [[ReplyButton 1, DeleteButton 1], [BackToList]]
   \<and> map status (db (world_of (admin_reply_handler sample_env
         (sample_update\<lparr>effective_user_id := 1, message_text := Some ''thanks''\<rparr>)
         (sample_world\<lparr>db := [sample_row\<lparr>status := ''resolved''\<rparr>]\<rparr>)
         (empty_data\<lparr>admin_reply_to_fb_id := Some 1\<rparr>))))
     = [''replied'']"
  by (simp add: get_admin_feedback_actions_keyboard_def admin_reply_handler_def Let_def
      get_feedback_def set_status_def sample_world_def sample_row_def empty_data_def
      sample_env_def)

text \<open>
  C3, amended: for every item and every operation, the operation leaves the stored item
  as it was, or sets its status to \<open>replied\<close> (only the admin reply handler, from any
  status, \<open>resolved\<close> included), or sets its status to \<open>resolved\<close> (only the admin action
  callback); no operation changes a stored item's status to \<open>new\<close>, which only a newly
  created item has, under a key no stored item had.
\<close>

theorem status_transitions:
  assumes "fb' \<in> set (db (world_of (run_handler h ev upd w ud)))"
  shows "(\<exists>fb\<in>set (db w).
            fb' = fb
            \<or> (h = AdminReplyHandler \<and> fb' = fb\<lparr>status := ''replied''\<rparr>)
            \<or> (h = AdminFeedbackActionCallback \<and> fb' = fb\<lparr>status := ''resolved''\<rparr>))
     \<or> (h = ConfirmSubmissionCallback \<and> status fb' = ''new''
          \<and> (\<forall>fb\<in>set (db w). fb_id fb \<noteq> fb_id fb'))"
proof (cases h)
  case ConfirmSubmissionCallback
  from db_confirm [of ev upd w ud] show ?thesis
  proof
    assume "db (world_of (confirm_submission_callback ev upd w ud)) = db w"
    with assms ConfirmSubmissionCallback show ?thesis by auto
  next
    assume "\<exists>fb. db (world_of (confirm_submission_callback ev upd w ud)) = db w @ [fb]
         \<and> status fb = ''new'' \<and> fb_id fb = new_id (db w)"
    then obtain fb where fb: "db (world_of (confirm_submission_callback ev upd w ud)) = db w @ [fb]"
      "status fb = ''new''" "fb_id fb = new_id (db w)"
      by blast
    from assms ConfirmSubmissionCallback fb(1) have "fb' \<in> set (db w) \<or> fb' = fb"
      by auto
    then show ?thesis
    proof
      assume "fb' \<in> set (db w)"
      then show ?thesis by blast
    next
      assume "fb' = fb"
      moreover have "\<forall>r\<in>set (db w). fb_id r \<noteq> new_id (db w)"
        using new_id_fresh by fastforce
      ultimately show ?thesis
        using ConfirmSubmissionCallback fb(2,3) by simp
    qed
  qed
next
  case AdminReplyHandler
  from db_reply [of ev upd w ud] show ?thesis
  proof
    assume "db (world_of (admin_reply_handler ev upd w ud)) = db w"
    with assms AdminReplyHandler show ?thesis by auto
  next
    assume "\<exists>i. db (world_of (admin_reply_handler ev upd w ud)) = set_status i ''replied'' (db w)"
    then obtain i where "db (world_of (admin_reply_handler ev upd w ud))
        = set_status i ''replied'' (db w)"
      by blast
    with assms AdminReplyHandler have "fb' \<in> set (set_status i ''replied'' (db w))"
      by simp
    from in_set_status [OF this] AdminReplyHandler show ?thesis
      by blast
  qed
next
  case AdminFeedbackActionCallback
  from db_action [of ev upd w ud] consider
    (same) "db (world_of (admin_feedback_action_callback ev upd w ud)) = db w"
    | (resolved) i where "db (world_of (admin_feedback_action_callback ev upd w ud))
        = set_status i ''resolved'' (db w)"
    | (deleted) i where "db (world_of (admin_feedback_action_callback ev upd w ud))
        = delete_feedback i (db w)"
    by blast
  then show ?thesis
  proof cases
    case same
    with assms AdminFeedbackActionCallback show ?thesis by auto
  next
    case resolved
    with assms AdminFeedbackActionCallback have "fb' \<in> set (set_status i ''resolved'' (db w))"
      by simp
    from in_set_status [OF this] AdminFeedbackActionCallback show ?thesis
      by blast
  next
    case deleted
    with assms AdminFeedbackActionCallback have "fb' \<in> set (delete_feedback i (db w))"
      by simp
    then have "fb' \<in> set (db w)"
      by (rule in_delete_feedback)
    then show ?thesis by blast
  qed
qed (use assms in \<open>auto simp add: db_start_command db_start_user_flow db_select_category
      db_get_content db_get_rating db_cancel db_register db_list_command db_stats db_help
      db_broadcast_command db_admin_list db_view_command db_view_callback
      db_broadcast_handler\<close>)

theorem status_transitions_witness:
  "sample_row\<lparr>status := ''resolved''\<rparr>
     \<in> set (db (world_of (run_handler AdminFeedbackActionCallback sample_env
                (sample_update\<lparr>effective_user_id := 1,
                               callback_data := Some ''admin_resolve_1''\<rparr>)
                sample_world empty_data)))
   \<and> (\<exists>fb\<in>set (db sample_world).
         sample_row\<lparr>status := ''resolved''\<rparr> = fb
         \<or> sample_row\<lparr>status := ''resolved''\<rparr> = fb\<lparr>status := ''resolved''\<rparr>)"
proof -
  have mem: "sample_row\<lparr>status := ''resolved''\<rparr>
     \<in> set (db (world_of (run_handler AdminFeedbackActionCallback sample_env
                (sample_update\<lparr>effective_user_id := 1,
                               callback_data := Some ''admin_resolve_1''\<rparr>)
                sample_world empty_data)))"
    by code_simp
  from status_transitions [OF mem] mem show ?thesis
    by (auto simp add: sample_world_def sample_row_def)
qed

end
